theory Spec2Isabelle
  imports Main
begin

section \<open>The configuration package (config.go) as a shallow embedding\<close>

text \<open>
  The package wraps a Viper instance (\<^verbatim>\<open>c.v\<close>) and a typed projection
  (\<^verbatim>\<open>c.configStruct\<close>). Its own functions (\<^verbatim>\<open>New\<close>, the three options,
  \<^verbatim>\<open>applyDefaults\<close>, \<^verbatim>\<open>validateRequiredFields\<close> and the accessors) are translated
  line by line. The library calls they make (Go's \<^verbatim>\<open>strings\<close>, \<^verbatim>\<open>path/filepath\<close>
  and \<^verbatim>\<open>reflect\<close>, Viper, its decoder mapstructure, and cast) are modelled after the
  libraries' sources (Viper v1.19, the version the README asks for), each definition
  carrying the name of the library function it stands for. The mutex is not modelled:
  every function here is one sequential call.
\<close>

subsection \<open>Go strings\<close>

text \<open>
  A Go string is a byte sequence, here a \<^typ>\<open>string\<close>. Case mapping is modelled on the ASCII
  letters; other bytes are left as they are.
\<close>

definition upper_letters :: string where
  "upper_letters = ''ABCDEFGHIJKLMNOPQRSTUVWXYZ''"

definition lower_letters :: string where
  "lower_letters = ''abcdefghijklmnopqrstuvwxyz''"

definition toLowerChar :: "char \<Rightarrow> char" where
  "toLowerChar c = (case map_of (zip upper_letters lower_letters) c of Some d \<Rightarrow> d | None \<Rightarrow> c)"

definition toUpperChar :: "char \<Rightarrow> char" where
  "toUpperChar c = (case map_of (zip lower_letters upper_letters) c of Some d \<Rightarrow> d | None \<Rightarrow> c)"

text \<open>\<^verbatim>\<open>strings.ToLower\<close>, \<^verbatim>\<open>strings.ToUpper\<close>.\<close>

definition ToLower :: "string \<Rightarrow> string" where
  "ToLower s = map toLowerChar s"

definition ToUpper :: "string \<Rightarrow> string" where
  "ToUpper s = map toUpperChar s"

text \<open>
  \<^verbatim>\<open>strings.ReplaceAll(s, old, new)\<close> and \<^verbatim>\<open>strings.NewReplacer(old, new).Replace(s)\<close>
  for one-byte \<^verbatim>\<open>old\<close> and \<^verbatim>\<open>new\<close>: the package only ever replaces "." by "_".
\<close>

definition ReplaceAll :: "string \<Rightarrow> char \<Rightarrow> char \<Rightarrow> string" where
  "ReplaceAll s old new = map (\<lambda>c. if c = old then new else c) s"

text \<open>\<^verbatim>\<open>strings.Contains(s, substr)\<close>.\<close>

fun Contains :: "string \<Rightarrow> string \<Rightarrow> bool" where
  "Contains [] substr = (substr = [])"
| "Contains (c # cs) substr = (take (length substr) (c # cs) = substr \<or> Contains cs substr)"

text \<open>
  \<^verbatim>\<open>strings.Split(s, ".")\<close>: the pieces between the dots; never an empty list.
  \<^verbatim>\<open>strings.Join(parts, ".")\<close> is its inverse.
\<close>

fun Split :: "string \<Rightarrow> string list" where
  "Split [] = [[]]"
| "Split (c # cs) =
     (if c = CHR ''.'' then [] # Split cs
      else (case Split cs of [] \<Rightarrow> [[c]] | w # ws \<Rightarrow> (c # w) # ws))"

fun Join :: "string list \<Rightarrow> string" where
  "Join [] = []"
| "Join [p] = p"
| "Join (p # q # ps) = p @ ''.'' @ Join (q # ps)"

text \<open>
  \<^verbatim>\<open>filepath.Ext(path)\<close>: the suffix beginning at the last dot of the last path element,
  empty when that element has no dot. The library scans from the end of the path and stops
  at a separator (the slash: Unix paths); \<open>ExtScan\<close> is that scan over the reversed
  path, with the bytes passed so far.
\<close>

fun ExtScan :: "string \<Rightarrow> string \<Rightarrow> string" where
  "ExtScan [] seen = []"
| "ExtScan (c # cs) seen =
     (if c = CHR ''/'' then []
      else if c = CHR ''.'' then c # seen
      else ExtScan cs (c # seen))"

definition Ext :: "string \<Rightarrow> string" where
  "Ext path = ExtScan (rev path) []"

text \<open>\<^verbatim>\<open>strconv.Itoa\<close> on the decimal digits.\<close>

definition digit :: "nat \<Rightarrow> char" where
  "digit n = ''0123456789'' ! (n mod 10)"

fun digits :: "nat \<Rightarrow> nat \<Rightarrow> string" where
  "digits 0 n = []"
| "digits (Suc fuel) n = (if n < 10 then [digit n] else digits fuel (n div 10) @ [digit n])"

definition Itoa :: "int \<Rightarrow> string" where
  "Itoa i = (if i < 0 then CHR ''-'' # digits (Suc (nat (- i))) (nat (- i))
             else digits (Suc (nat i)) (nat i))"

text \<open>
  \<^verbatim>\<open>strconv.ParseBool\<close>: the six spellings of true, the six of false, an error
  (\<open>None\<close>) for every other string.
\<close>

definition ParseBool :: "string \<Rightarrow> bool option" where
  "ParseBool s =
     (if s \<in> set [''1'', ''t'', ''T'', ''TRUE'', ''true'', ''True''] then Some True
      else if s \<in> set [''0'', ''f'', ''F'', ''FALSE'', ''false'', ''False''] then Some False
      else None)"

subsection \<open>Values of the configuration tree\<close>

text \<open>
  Viper keeps \<^verbatim>\<open>map[string]interface{}\<close> trees. A value is nil, a string, a boolean, an
  integer or a nested map; a map is an association list in which the first entry of a key
  is the one a lookup sees. Slices and floating-point numbers are not modelled.
\<close>

datatype val = VNil | VStr string | VBool bool | VInt int | VMap "(string \<times> val) list"

type_synonym tree = "(string \<times> val) list"

text \<open>Assignment \<^verbatim>\<open>m[k] = x\<close> on a map.\<close>

fun assign :: "('k \<times> 'v) list \<Rightarrow> 'k \<Rightarrow> 'v \<Rightarrow> ('k \<times> 'v) list" where
  "assign [] k x = [(k, x)]"
| "assign ((k', y) # m) k x = (if k' = k then (k, x) # m else (k', y) # assign m k x)"

subsection \<open>Errors\<close>

text \<open>
  Go errors are values; each \<^verbatim>\<open>fmt.Errorf\<close> of the package is a constructor holding the
  arguments of its format string, a wrapped error (\<^verbatim>\<open>%w\<close>) included. The errors raised
  inside the libraries are constructors of their own.
\<close>

datatype kind = KString | KBool | KMap | KStruct

datatype error =
    UnsupportedFileFormat string
  | FailedToReadConfigFile string error
  | FailedToUnmarshalConfigStruct error
  | FailedToBindEnvVar string error
  | FailedToUnmarshalConfigStructFromEnv error
  | FailedToApplyDefaults error
  | RequiredFieldValidationFailed error
  | CannotSetField string
  | UnsupportedFieldTypeForDefault kind
  | RequiredFieldNotSet string
  | ConfigReadError string
  | ResultMustBeAPointer
  | ResultMustBeAddressable
  | DecodeErrors "error list"
  | Unconvertible string kind
  | CannotParseAsBool string
  | ExpectedAMap string

subsection \<open>Struct values as reflection sees them\<close>

text \<open>
  \<^verbatim>\<open>applyDefaults\<close>, \<^verbatim>\<open>validateRequiredFields\<close> and the decoder walk a struct through
  \<^verbatim>\<open>reflect\<close>: a list of fields, each with its name, the values of its
  \<^verbatim>\<open>mapstructure\<close> and \<^verbatim>\<open>default\<close> tags, and its current value. The field
  kinds are those of \<^verbatim>\<open>ConfigStruct\<close> (string, bool, \<^verbatim>\<open>map[string]string\<close>) and
  nested structs of them; a map field is \<open>None\<close> when nil.
\<close>

datatype fvalue =
    FString string
  | FBool bool
  | FMap "(string \<times> string) list option"
  | FStruct "Field list"
and Field = Field (fname: string) (tag_mapstructure: string) (tag_default: string) (fval: fvalue)

fun Kind :: "fvalue \<Rightarrow> kind" where
  "Kind (FString _) = KString"
| "Kind (FBool _) = KBool"
| "Kind (FMap _) = KMap"
| "Kind (FStruct _) = KStruct"

text \<open>\<^verbatim>\<open>reflect.Value.IsZero\<close>: a non-nil empty map is not zero.\<close>

fun IsZero :: "fvalue \<Rightarrow> bool"
  and IsZeroField :: "Field \<Rightarrow> bool" where
  "IsZero (FString s) = (s = [])"
| "IsZero (FBool b) = (\<not> b)"
| "IsZero (FMap m) = (m = None)"
| "IsZero (FStruct fs) = list_all IsZeroField fs"
| "IsZeroField (Field n t d x) = IsZero x"

text \<open>
  \<^verbatim>\<open>reflect.Value.CanSet\<close> for a field of an addressable struct: the field must be
  exported, that is, its name starts with an upper-case letter.
\<close>

definition CanSet :: "Field \<Rightarrow> bool" where
  "CanSet f = (case fname f of [] \<Rightarrow> False | c # _ \<Rightarrow> c \<in> set upper_letters)"

definition setVal :: "Field \<Rightarrow> fvalue \<Rightarrow> Field" where
  "setVal f x = Field (fname f) (tag_mapstructure f) (tag_default f) x"

subsection \<open>ConfigStruct and Config\<close>

record ConfigStruct =
  Environment :: string
  Debug :: bool
  Settings :: "(string \<times> string) list option"

text \<open>
  The reflection view of a \<open>ConfigStruct\<close>, with the tags of its declaration, and the
  write-back of a field list of that shape.
\<close>

definition reflectConfigStruct :: "ConfigStruct \<Rightarrow> Field list" where
  "reflectConfigStruct s =
     [Field ''Environment'' ''environment,required'' ''development'' (FString (Environment s)),
      Field ''Debug'' ''debug'' ''false'' (FBool (Debug s)),
      Field ''Settings'' ''settings'' '''' (FMap (Settings s))]"

fun storeConfigStruct :: "Field list \<Rightarrow> ConfigStruct \<Rightarrow> ConfigStruct" where
  "storeConfigStruct [Field n1 t1 d1 (FString e), Field n2 t2 d2 (FBool b), Field n3 t3 d3 (FMap m)] s =
     \<lparr>Environment = e, Debug = b, Settings = m\<rparr>"
| "storeConfigStruct fs s = s"

record Viper =
  configFile :: string
  configType :: string
  envPrefix :: string
  envKeyReplacer :: "(char \<times> char) option"
  automaticEnvApplied :: bool
  env :: "(string \<times> string list) list"
  config :: tree
  defaults :: tree

record Config =
  viper :: Viper
  configStruct :: ConfigStruct

text \<open>
  The fields of Viper the package never writes (overrides, flags, the key/value store and
  aliases) stay empty and are left out; the key delimiter is the default ".". The field
  \<^verbatim>\<open>v\<close> of \<^verbatim>\<open>Config\<close> is \<open>viper\<close> here. \<^verbatim>\<open>viper.New()\<close>:
\<close>

definition viperNew :: Viper where
  "viperNew = \<lparr>configFile = [], configType = [], envPrefix = [], envKeyReplacer = None,
     automaticEnvApplied = False, env = [], config = [], defaults = []\<rparr>"

subsection \<open>applyDefaults and validateRequiredFields\<close>

text \<open>
  The body of the loop of \<^verbatim>\<open>applyDefaults\<close> on one field: the field as the iteration
  leaves it, and the error if the iteration returns one. The function mutates the struct in
  place, so the fields set before an error stay set.
\<close>

definition applyDefault :: "Field \<Rightarrow> Field \<times> error option" where
  "applyDefault f =
     (let defaultVal = tag_default f in
      if defaultVal = [] then (f, None)
      else if \<not> CanSet f then (f, Some (CannotSetField (fname f)))
      else if \<not> IsZero (fval f) then (f, None)
      else (case fval f of
              FString _ \<Rightarrow> (setVal f (FString defaultVal), None)
            | FBool _ \<Rightarrow> (setVal f (FBool (defaultVal = ''true'')), None)
            | FMap _ \<Rightarrow> (if defaultVal = [] then (setVal f (FMap (Some [])), None) else (f, None))
            | FStruct _ \<Rightarrow> (f, Some (UnsupportedFieldTypeForDefault (Kind (fval f))))))"

fun applyDefaultsFields :: "Field list \<Rightarrow> Field list \<times> error option" where
  "applyDefaultsFields [] = ([], None)"
| "applyDefaultsFields (f # fs) =
     (case applyDefault f of
        (f', Some err) \<Rightarrow> (f' # fs, Some err)
      | (f', None) \<Rightarrow> (case applyDefaultsFields fs of (fs', r) \<Rightarrow> (f' # fs', r)))"

definition applyDefaults :: "Config \<Rightarrow> Config \<times> error option" where
  "applyDefaults c =
     (case applyDefaultsFields (reflectConfigStruct (configStruct c)) of
        (fs, r) \<Rightarrow> (c\<lparr>configStruct := storeConfigStruct fs (configStruct c)\<rparr>, r))"

fun validateFields :: "Field list \<Rightarrow> error option" where
  "validateFields [] = None"
| "validateFields (f # fs) =
     (if Contains (tag_mapstructure f) '',required'' \<and> IsZero (fval f)
      then Some (RequiredFieldNotSet (fname f))
      else validateFields fs)"

definition validateRequiredFields :: "Config \<Rightarrow> error option" where
  "validateRequiredFields c = validateFields (reflectConfigStruct (configStruct c))"

subsection \<open>New\<close>

text \<open>
  An option is a function on the store that may fail. \<^verbatim>\<open>New\<close> drops the store as soon
  as an option fails, so an option is modelled by its error or the store it leaves. The
  result of \<^verbatim>\<open>New\<close> is the Go pair \<^verbatim>\<open>(*Config, error)\<close>, \<open>None\<close> standing for nil.
\<close>

type_synonym Option = "Config \<Rightarrow> error + Config"

fun applyOptions :: "Option list \<Rightarrow> Config \<Rightarrow> error + Config" where
  "applyOptions [] c = Inr c"
| "applyOptions (opt # opts) c =
     (case opt c of Inl err \<Rightarrow> Inl err | Inr c' \<Rightarrow> applyOptions opts c')"

definition newConfig :: Config where
  "newConfig = \<lparr>viper = viperNew,
     configStruct = \<lparr>Environment = [], Debug = False, Settings = Some []\<rparr>\<rparr>"

definition New :: "Option list \<Rightarrow> Config option \<times> error option" where
  "New opts =
     (case applyDefaults newConfig of
        (c, Some err) \<Rightarrow> (None, Some (FailedToApplyDefaults err))
      | (c, None) \<Rightarrow>
          (case validateRequiredFields c of
             Some err \<Rightarrow> (None, Some (RequiredFieldValidationFailed err))
           | None \<Rightarrow>
               (case applyOptions opts c of
                  Inl err \<Rightarrow> (None, Some err)
                | Inr c' \<Rightarrow> (Some c', None))))"

definition GetConfigStruct :: "Config \<Rightarrow> ConfigStruct" where
  "GetConfigStruct c = configStruct c"

subsection \<open>The process environment and the file system\<close>

text \<open>
  What the package reads from outside: \<^verbatim>\<open>os.LookupEnv\<close>, and reading a file and parsing
  it as YAML or JSON (\<open>LoadFile path configType\<close>, an error message or the parsed tree).
\<close>

record world =
  LookupEnv :: "string \<Rightarrow> string option"
  LoadFile :: "string \<Rightarrow> string \<Rightarrow> string + tree"

subsection \<open>Viper: writing the layers\<close>

text \<open>
  \<^verbatim>\<open>insensitiviseMap\<close> and \<^verbatim>\<open>copyAndInsensitiviseMap\<close>: the keys of a map and of the
  maps below it in lower case. The entries are stored one by one, a later entry replacing an
  earlier one with the same lower-case key.
\<close>

fun insensitiviseVal :: "val \<Rightarrow> val"
  and insensitiviseMap :: "tree \<Rightarrow> tree \<Rightarrow> tree" where
  "insensitiviseVal (VMap m) = VMap (insensitiviseMap [] m)"
| "insensitiviseVal VNil = VNil"
| "insensitiviseVal (VStr s) = VStr s"
| "insensitiviseVal (VBool b) = VBool b"
| "insensitiviseVal (VInt i) = VInt i"
| "insensitiviseMap nm [] = nm"
| "insensitiviseMap nm ((key, x) # m) =
     insensitiviseMap (assign nm (ToLower key) (insensitiviseVal x)) m"

text \<open>
  \<^verbatim>\<open>deepSearch(m, path)\<close> followed by \<^verbatim>\<open>deepestMap[lastKey] = value\<close>: the maps along
  the path are created where a key is missing, and replace a value that is not a map.
\<close>

fun setDeep :: "tree \<Rightarrow> string list \<Rightarrow> string \<Rightarrow> val \<Rightarrow> tree" where
  "setDeep m [] lastKey x = assign m lastKey x"
| "setDeep m (k # ks) lastKey x =
     assign m k (VMap (setDeep (case map_of m k of Some (VMap m3) \<Rightarrow> m3 | _ \<Rightarrow> []) ks lastKey x))"

definition SetDefault :: "Viper \<Rightarrow> string \<Rightarrow> val \<Rightarrow> Viper" where
  "SetDefault v key x =
     (let path = Split (ToLower key);
          lastKey = ToLower (last path)
      in v\<lparr>defaults := setDeep (defaults v) (butlast path) lastKey (insensitiviseVal x)\<rparr>)"

definition SetConfigType :: "Viper \<Rightarrow> string \<Rightarrow> Viper" where
  "SetConfigType v t = (if t \<noteq> [] then v\<lparr>configType := t\<rparr> else v)"

definition SetConfigFile :: "Viper \<Rightarrow> string \<Rightarrow> Viper" where
  "SetConfigFile v path = (if path \<noteq> [] then v\<lparr>configFile := path\<rparr> else v)"

definition SetEnvPrefix :: "Viper \<Rightarrow> string \<Rightarrow> Viper" where
  "SetEnvPrefix v p = (if p \<noteq> [] then v\<lparr>envPrefix := p\<rparr> else v)"

definition SetEnvKeyReplacer :: "Viper \<Rightarrow> char \<Rightarrow> char \<Rightarrow> Viper" where
  "SetEnvKeyReplacer v old new = v\<lparr>envKeyReplacer := Some (old, new)\<rparr>"

definition AutomaticEnv :: "Viper \<Rightarrow> Viper" where
  "AutomaticEnv v = v\<lparr>automaticEnvApplied := True\<rparr>"

text \<open>
  \<^verbatim>\<open>BindEnv(key, name)\<close> appends the variable name to the names bound to the key; with
  two arguments it has no error path.
\<close>

definition BindEnv :: "Viper \<Rightarrow> string \<Rightarrow> string \<Rightarrow> error + Viper" where
  "BindEnv v key name =
     (let k = ToLower key;
          bound = (case map_of (env v) k of None \<Rightarrow> [] | Some names \<Rightarrow> names)
      in Inr (v\<lparr>env := assign (env v) k (bound @ [name])\<rparr>))"

text \<open>
  \<^verbatim>\<open>ReadInConfig\<close>: the file named by \<^verbatim>\<open>SetConfigFile\<close>, parsed as the configured
  type, its keys lower-cased, replaces the whole file layer.
\<close>

definition ReadInConfig :: "world \<Rightarrow> Viper \<Rightarrow> error + Viper" where
  "ReadInConfig w v =
     (case LoadFile w (configFile v) (configType v) of
        Inl msg \<Rightarrow> Inl (ConfigReadError msg)
      | Inr t \<Rightarrow> Inr (v\<lparr>config := insensitiviseMap [] t\<rparr>))"

subsection \<open>Viper: looking a key up\<close>

text \<open>
  \<^verbatim>\<open>getEnv\<close>: the key replacer is applied to the variable name, and a variable set to the
  empty string counts as unset (\<^verbatim>\<open>AllowEmptyEnv\<close> is off).
\<close>

definition getEnv :: "world \<Rightarrow> Viper \<Rightarrow> string \<Rightarrow> string option" where
  "getEnv w v key =
     (let key' = (case envKeyReplacer v of None \<Rightarrow> key | Some (old, new) \<Rightarrow> ReplaceAll key old new)
      in case LookupEnv w key' of
           None \<Rightarrow> None
         | Some x \<Rightarrow> if x \<noteq> [] then Some x else None)"

definition mergeWithEnvPrefix :: "Viper \<Rightarrow> string \<Rightarrow> string" where
  "mergeWithEnvPrefix v k =
     (if envPrefix v \<noteq> [] then ToUpper (envPrefix v @ ''_'' @ k) else ToUpper k)"

text \<open>\<^verbatim>\<open>searchMap\<close>: the value at a path of a nested map, nil when the path leaves it.\<close>

fun searchMap :: "tree \<Rightarrow> string list \<Rightarrow> val" where
  "searchMap source [] = VMap source"
| "searchMap source (p # ps) =
     (case map_of source p of
        None \<Rightarrow> VNil
      | Some next \<Rightarrow>
          if ps = [] then next
          else (case next of VMap m \<Rightarrow> searchMap m ps | _ \<Rightarrow> VNil))"

text \<open>The first value of a list that is not nil: a loop that returns at the first hit.\<close>

fun firstNonNil :: "val list \<Rightarrow> val" where
  "firstNonNil [] = VNil"
| "firstNonNil (x # xs) = (if x \<noteq> VNil then x else firstNonNil xs)"

text \<open>
  \<^verbatim>\<open>searchIndexableWithPathPrefixes\<close>, used on the file layer: a key of the file may
  itself hold dots, so every prefix of the path, the longest first, is tried as one key
  (\<^verbatim>\<open>searchMapWithPathPrefixes\<close> is the body of the loop).
\<close>

fun searchIndexableWithPathPrefixes :: "tree \<Rightarrow> string list \<Rightarrow> val" where
  "searchIndexableWithPathPrefixes source path =
     (if path = [] then VMap source
      else firstNonNil
        (map (\<lambda>i. case map_of source (ToLower (Join (take i path))) of
                     None \<Rightarrow> VNil
                   | Some next \<Rightarrow>
                       if i = length path then next
                       else (case next of
                               VMap n \<Rightarrow> searchIndexableWithPathPrefixes n (drop i path)
                             | _ \<Rightarrow> VNil))
             (rev [1..<Suc (length path)])))"

declare searchIndexableWithPathPrefixes.simps [simp del]

text \<open>
  \<^verbatim>\<open>isPathShadowedInDeepMap\<close>: the first proper prefix of the path that holds a value
  which is not a map, or the empty string. The loop runs over the prefix lengths.
\<close>

fun shadowedInDeepMap :: "tree \<Rightarrow> string list \<Rightarrow> nat list \<Rightarrow> string" where
  "shadowedInDeepMap m path [] = []"
| "shadowedInDeepMap m path (i # rest) =
     (case searchMap m (take i path) of
        VNil \<Rightarrow> []
      | VMap _ \<Rightarrow> shadowedInDeepMap m path rest
      | _ \<Rightarrow> Join (take i path))"

definition isPathShadowedInDeepMap :: "string list \<Rightarrow> tree \<Rightarrow> string" where
  "isPathShadowedInDeepMap path m = shadowedInDeepMap m path [1..<length path]"

text \<open>
  \<^verbatim>\<open>isPathShadowedInAutoEnv\<close>: the first proper prefix of the path whose variable, under
  the prefix, is set.
\<close>

fun shadowedInAutoEnv :: "world \<Rightarrow> Viper \<Rightarrow> string list \<Rightarrow> nat list \<Rightarrow> string" where
  "shadowedInAutoEnv w v path [] = []"
| "shadowedInAutoEnv w v path (i # rest) =
     (case getEnv w v (mergeWithEnvPrefix v (Join (take i path))) of
        Some _ \<Rightarrow> Join (take i path)
      | None \<Rightarrow> shadowedInAutoEnv w v path rest)"

definition isPathShadowedInAutoEnv :: "world \<Rightarrow> Viper \<Rightarrow> string list \<Rightarrow> string" where
  "isPathShadowedInAutoEnv w v path = shadowedInAutoEnv w v path [1..<length path]"

text \<open>The first bound variable that is set.\<close>

fun firstSetEnv :: "world \<Rightarrow> Viper \<Rightarrow> string list \<Rightarrow> string option" where
  "firstSetEnv w v [] = None"
| "firstSetEnv w v (name # names) =
     (case getEnv w v name of Some x \<Rightarrow> Some x | None \<Rightarrow> firstSetEnv w v names)"

text \<open>
  \<^verbatim>\<open>find\<close>, on the layers the package uses, in Viper's order: the environment (the
  variable named after the key when \<^verbatim>\<open>AutomaticEnv\<close> is on, then the bound variables),
  the file, the defaults. A nested key is hidden (nil) from the lower layers when a prefix of
  it holds a plain value in a higher one. Viper's check of the bound keys for such a prefix
  (\<^verbatim>\<open>isPathShadowedInFlatMap\<close> on \<^verbatim>\<open>v.env\<close>) returns the empty string for the type of
  \<^verbatim>\<open>v.env\<close> and is left out.
\<close>

definition findKey :: "world \<Rightarrow> Viper \<Rightarrow> string \<Rightarrow> val" where
  "findKey w v lcaseKey =
     (let path = Split lcaseKey;
          nested = (length path > 1)
      in case (if automaticEnvApplied v then getEnv w v (mergeWithEnvPrefix v lcaseKey)
               else None) of
           Some x \<Rightarrow> VStr x
         | None \<Rightarrow>
             if automaticEnvApplied v \<and> nested \<and> isPathShadowedInAutoEnv w v path \<noteq> []
             then VNil
             else (case firstSetEnv w v
                          (case map_of (env v) lcaseKey of None \<Rightarrow> [] | Some names \<Rightarrow> names) of
                     Some x \<Rightarrow> VStr x
                   | None \<Rightarrow>
                       (let x = searchIndexableWithPathPrefixes (config v) path
                        in if x \<noteq> VNil then x
                           else if nested \<and> isPathShadowedInDeepMap path (config v) \<noteq> []
                           then VNil
                           else searchMap (defaults v) path)))"

definition vGet :: "world \<Rightarrow> Viper \<Rightarrow> string \<Rightarrow> val" where
  "vGet w v key = findKey w v (ToLower key)"

definition vIsSet :: "world \<Rightarrow> Viper \<Rightarrow> string \<Rightarrow> bool" where
  "vIsSet w v key = (findKey w v (ToLower key) \<noteq> VNil)"

text \<open>\<^verbatim>\<open>cast.ToString\<close> and \<^verbatim>\<open>cast.ToBoolE\<close>; \<^verbatim>\<open>cast.ToBool\<close> drops the error.\<close>

fun ToString :: "val \<Rightarrow> string" where
  "ToString (VStr s) = s"
| "ToString (VBool b) = (if b then ''true'' else ''false'')"
| "ToString (VInt i) = Itoa i"
| "ToString VNil = []"
| "ToString (VMap m) = []"



definition vGetString :: "world \<Rightarrow> Viper \<Rightarrow> string \<Rightarrow> string" where
  "vGetString w v key = ToString (vGet w v key)"


subsection \<open>Viper: all settings\<close>

text \<open>
  \<^verbatim>\<open>AllKeys\<close> collects the keys of the layers from the highest to the lowest:
  \<^verbatim>\<open>mergeFlatMap\<close> for the bound keys, \<^verbatim>\<open>flattenAndMergeMap\<close> for the file and
  the defaults. A key found by \<^verbatim>\<open>AutomaticEnv\<close> alone is not among them. The set of keys
  is a list without repetition.
\<close>

fun mergeFlatMap :: "string list \<Rightarrow> string list \<Rightarrow> string list" where
  "mergeFlatMap shadow [] = shadow"
| "mergeFlatMap shadow (k # ks) =
     (let path = Split k
      in if \<exists>i \<in> set [1..<length path]. Join (take i path) \<in> set shadow
         then mergeFlatMap shadow ks
         else mergeFlatMap (List.insert (ToLower k) shadow) ks)"

fun flattenAndMergeMap :: "string list \<Rightarrow> tree \<Rightarrow> string \<Rightarrow> string list"
  and flattenEntries :: "string list \<Rightarrow> tree \<Rightarrow> string \<Rightarrow> string list" where
  "flattenAndMergeMap shadow m prefix =
     (if prefix \<noteq> [] \<and> prefix \<in> set shadow then shadow
      else flattenEntries shadow m (if prefix \<noteq> [] then prefix @ ''.'' else prefix))"
| "flattenEntries shadow [] prefix = shadow"
| "flattenEntries shadow ((k, x) # m) prefix =
     (case x of
        VMap m2 \<Rightarrow> flattenEntries (flattenAndMergeMap shadow m2 (prefix @ k)) m prefix
      | _ \<Rightarrow> flattenEntries (List.insert (ToLower (prefix @ k)) shadow) m prefix)"

definition AllKeys :: "Viper \<Rightarrow> string list" where
  "AllKeys v =
     flattenAndMergeMap
       (flattenAndMergeMap (mergeFlatMap [] (map fst (env v))) (config v) [])
       (defaults v) []"

text \<open>\<^verbatim>\<open>getSettings\<close>: the nested map of the values of the keys that have one.\<close>

fun getSettings :: "world \<Rightarrow> Viper \<Rightarrow> string list \<Rightarrow> tree \<Rightarrow> tree" where
  "getSettings w v [] m = m"
| "getSettings w v (k # ks) m =
     (let x = vGet w v k
      in if x = VNil then getSettings w v ks m
         else (let path = Split k; lastKey = ToLower (last path)
               in getSettings w v ks (setDeep m (butlast path) lastKey x)))"

definition AllSettings :: "world \<Rightarrow> Viper \<Rightarrow> tree" where
  "AllSettings w v = getSettings w v (AllKeys v) []"

subsection \<open>The decoder (mapstructure, weakly typed input)\<close>

text \<open>
  \<^verbatim>\<open>decodeString\<close> and \<^verbatim>\<open>decodeBool\<close> with \<^verbatim>\<open>WeaklyTypedInput\<close>: the decoded value,
  or the error and the field as it was.
\<close>

definition decodeString :: "string \<Rightarrow> val \<Rightarrow> string \<Rightarrow> string \<times> error list" where
  "decodeString name data cur =
     (case data of
        VStr s \<Rightarrow> (s, [])
      | VBool b \<Rightarrow> (if b then ''1'' else ''0'', [])
      | VInt i \<Rightarrow> (Itoa i, [])
      | VNil \<Rightarrow> (cur, [])
      | VMap _ \<Rightarrow> (cur, [Unconvertible name KString]))"

definition decodeBool :: "string \<Rightarrow> val \<Rightarrow> bool \<Rightarrow> bool \<times> error list" where
  "decodeBool name data cur =
     (case data of
        VBool b \<Rightarrow> (b, [])
      | VInt i \<Rightarrow> (i \<noteq> 0, [])
      | VStr s \<Rightarrow>
          (case ParseBool s of
             Some b \<Rightarrow> (b, [])
           | None \<Rightarrow> if s = [] then (False, []) else (cur, [CannotParseAsBool name]))
      | VNil \<Rightarrow> (cur, [])
      | VMap _ \<Rightarrow> (cur, [Unconvertible name KBool]))"

text \<open>
  \<^verbatim>\<open>decodeMapFromMap\<close> into a \<^verbatim>\<open>map[string]string\<close>: the entries are decoded as
  strings into the map the field holds (a new one when it is nil); an entry that fails is
  left out and its error kept.
\<close>

fun decodeMapEntries ::
  "string \<Rightarrow> tree \<Rightarrow> (string \<times> string) list \<Rightarrow> (string \<times> string) list \<times> error list" where
  "decodeMapEntries name [] valMap = (valMap, [])"
| "decodeMapEntries name ((k, x) # m) valMap =
     (case decodeString (name @ ''['' @ k @ '']'') x [] of
        (s, []) \<Rightarrow> decodeMapEntries name m (assign valMap k s)
      | (s, e # es) \<Rightarrow>
          (case decodeMapEntries name m valMap of (valMap', errs) \<Rightarrow> (valMap', e # es @ errs)))"

definition decodeMap ::
  "string \<Rightarrow> val \<Rightarrow> (string \<times> string) list option \<Rightarrow> (string \<times> string) list option \<times> error list" where
  "decodeMap name data cur =
     (case data of
        VMap m \<Rightarrow>
          (case decodeMapEntries name m (case cur of None \<Rightarrow> [] | Some valMap \<Rightarrow> valMap) of
             (valMap', errs) \<Rightarrow> (Some valMap', errs))
      | VNil \<Rightarrow> (cur, [])
      | _ \<Rightarrow> (cur, [ExpectedAMap name]))"

text \<open>
  The key of a struct field in the input map: the exact name first, then the first key
  equal to it up to case (\<^verbatim>\<open>strings.EqualFold\<close>).
\<close>

definition lookupField :: "tree \<Rightarrow> string \<Rightarrow> val option" where
  "lookupField m fieldName =
     (case map_of m fieldName of
        Some x \<Rightarrow> Some x
      | None \<Rightarrow> map_option snd (List.find (\<lambda>(k, x). ToLower k = ToLower fieldName) m))"

text \<open>
  The name of a struct field in the input: the part of its \<^verbatim>\<open>mapstructure\<close> tag before
  the first comma, or the field's own name when that part is empty.
\<close>

definition fieldKey :: "Field \<Rightarrow> string" where
  "fieldKey f =
     (let tagValue = takeWhile (\<lambda>c. c \<noteq> CHR '','') (tag_mapstructure f)
      in if tagValue \<noteq> [] then tagValue else fname f)"

text \<open>
  \<^verbatim>\<open>decode\<close> and \<^verbatim>\<open>decodeStructFromMap\<close>. A field with no entry in the input, or
  one that cannot be set, is left as it is. The errors of all fields are collected; in an
  error a nested field is named with the names of the structs around it.
\<close>

fun decode :: "string \<Rightarrow> val \<Rightarrow> fvalue \<Rightarrow> fvalue \<times> error list"
  and decodeStructFromMap :: "string \<Rightarrow> tree \<Rightarrow> Field list \<Rightarrow> Field list \<times> error list" where
  "decode name data (FString cur) =
     (case decodeString name data cur of (s, errs) \<Rightarrow> (FString s, errs))"
| "decode name data (FBool cur) =
     (case decodeBool name data cur of (b, errs) \<Rightarrow> (FBool b, errs))"
| "decode name data (FMap cur) =
     (case decodeMap name data cur of (m, errs) \<Rightarrow> (FMap m, errs))"
| "decode name data (FStruct fs) =
     (case data of
        VMap m \<Rightarrow> (case decodeStructFromMap name m fs of (fs', errs) \<Rightarrow> (FStruct fs', errs))
      | VNil \<Rightarrow> (FStruct fs, [])
      | _ \<Rightarrow> (FStruct fs, [ExpectedAMap name]))"
| "decodeStructFromMap name m [] = ([], [])"
| "decodeStructFromMap name m (Field n t d x # fs) =
     (let f = Field n t d x;
          fieldName = fieldKey f;
          (f', errs) =
            (case lookupField m fieldName of
               None \<Rightarrow> (f, [])
             | Some raw \<Rightarrow>
                 if \<not> CanSet f then (f, [])
                 else (case decode (if name \<noteq> [] then name @ ''.'' @ fieldName else fieldName)
                              raw x of
                         (x', es) \<Rightarrow> (setVal f x', es)));
          (fs', errs') = decodeStructFromMap name m fs
      in (f' # fs', errs @ errs'))"

text \<open>
  The target of \<^verbatim>\<open>Unmarshal\<close>: a value that is not a pointer, a nil pointer, or a
  pointer to a struct. \<^verbatim>\<open>mapstructure.NewDecoder\<close> refuses the first two.
\<close>

datatype target = NonPointer | NilPointer | Pointer "Field list"

definition vUnmarshal :: "world \<Rightarrow> Viper \<Rightarrow> target \<Rightarrow> target \<times> error option" where
  "vUnmarshal w v t =
     (case t of
        NonPointer \<Rightarrow> (t, Some ResultMustBeAPointer)
      | NilPointer \<Rightarrow> (t, Some ResultMustBeAddressable)
      | Pointer fs \<Rightarrow>
          (case decodeStructFromMap [] (AllSettings w v) fs of
             (fs', errs) \<Rightarrow> (Pointer fs', if errs = [] then None else Some (DecodeErrors errs))))"

subsection \<open>The options and the accessors\<close>

text \<open>\<^verbatim>\<open>c.v.Unmarshal(&c.configStruct)\<close>, the step the file and environment options share.\<close>

definition unmarshalConfigStruct :: "world \<Rightarrow> Config \<Rightarrow> error + Config" where
  "unmarshalConfigStruct w c =
     (case vUnmarshal w (viper c) (Pointer (reflectConfigStruct (configStruct c))) of
        (Pointer fs, None) \<Rightarrow> Inr (c\<lparr>configStruct := storeConfigStruct fs (configStruct c)\<rparr>)
      | (_, Some err) \<Rightarrow> Inl err
      | (_, None) \<Rightarrow> Inr c)"

definition WithFilepath :: "world \<Rightarrow> string \<Rightarrow> Option" where
  "WithFilepath w path c =
     (let ext = ToLower (Ext path)
      in case (if ext = ''.yaml'' \<or> ext = ''.yml'' then Some ''yaml''
               else if ext = ''.json'' then Some ''json''
               else None) of
           None \<Rightarrow> Inl (UnsupportedFileFormat path)
         | Some t \<Rightarrow>
             (case ReadInConfig w (SetConfigFile (SetConfigType (viper c) t) path) of
                Inl err \<Rightarrow> Inl (FailedToReadConfigFile path err)
              | Inr v' \<Rightarrow>
                  (case unmarshalConfigStruct w (c\<lparr>viper := v'\<rparr>) of
                     Inl err \<Rightarrow> Inl (FailedToUnmarshalConfigStruct err)
                   | Inr c' \<Rightarrow>
                       (case validateRequiredFields c' of
                          Some err \<Rightarrow> Inl err
                        | None \<Rightarrow> Inr c'))))"

text \<open>
  \<^verbatim>\<open>WithDefault\<close>: the entries of the Go map in the order the \<^verbatim>\<open>range\<close> loop visits
  them.
\<close>

fun setDefaults :: "Viper \<Rightarrow> (string \<times> val) list \<Rightarrow> Viper" where
  "setDefaults v [] = v"
| "setDefaults v ((k, x) # kvs) = setDefaults (SetDefault v k x) kvs"

definition WithDefault :: "(string \<times> val) list \<Rightarrow> Option" where
  "WithDefault dflts c = Inr (c\<lparr>viper := setDefaults (viper c) dflts\<rparr>)"

definition boundKeys :: "string list" where
  "boundKeys = [''environment'', ''debug'', ''app.name'', ''app.port'']"

fun bindKeys :: "Viper \<Rightarrow> string \<Rightarrow> string list \<Rightarrow> error + Viper" where
  "bindKeys v prefix [] = Inr v"
| "bindKeys v prefix (key # keys) =
     (let envKey = ReplaceAll key (CHR ''.'') (CHR ''_'')
      in case BindEnv v key (ToUpper prefix @ ''_'' @ ToUpper envKey) of
           Inl err \<Rightarrow> Inl (FailedToBindEnvVar key err)
         | Inr v' \<Rightarrow> bindKeys v' prefix keys)"

definition WithEnv :: "world \<Rightarrow> string \<Rightarrow> Option" where
  "WithEnv w prefix c =
     (case bindKeys
             (AutomaticEnv (SetEnvKeyReplacer (SetEnvPrefix (viper c) (ToUpper prefix))
                (CHR ''.'') (CHR ''_'')))
             prefix boundKeys of
        Inl err \<Rightarrow> Inl err
      | Inr v' \<Rightarrow>
          (case unmarshalConfigStruct w (c\<lparr>viper := v'\<rparr>) of
             Inl err \<Rightarrow> Inl (FailedToUnmarshalConfigStructFromEnv err)
           | Inr c' \<Rightarrow>
               (case validateRequiredFields c' of
                  Some err \<Rightarrow> Inl err
                | None \<Rightarrow> Inr c')))"

definition Get :: "world \<Rightarrow> Config \<Rightarrow> string \<Rightarrow> val" where
  "Get w c key = vGet w (viper c) key"

definition GetStringWithDefault :: "world \<Rightarrow> Config \<Rightarrow> string \<Rightarrow> string \<Rightarrow> string" where
  "GetStringWithDefault w c key defaultValue =
     (if vIsSet w (viper c) key then vGetString w (viper c) key else defaultValue)"



subsection \<open>Notions used in the statements\<close>

text \<open>
  The lookup of \<open>findKey\<close> below the environment: the file, then the defaults. And the
  variable names bound to a key.
\<close>

definition lowerLayers :: "Viper \<Rightarrow> string list \<Rightarrow> val" where
  "lowerLayers v path =
     (let x = searchIndexableWithPathPrefixes (config v) path
      in if x \<noteq> VNil then x
         else if length path > 1 \<and> isPathShadowedInDeepMap path (config v) \<noteq> [] then VNil
         else searchMap (defaults v) path)"

definition boundNames :: "Viper \<Rightarrow> string \<Rightarrow> string list" where
  "boundNames v k = (case map_of (env v) k of None \<Rightarrow> [] | Some names \<Rightarrow> names)"

text \<open>A variable is unset for Viper when it is absent or empty.\<close>

definition unsetEnv :: "world \<Rightarrow> string \<Rightarrow> bool" where
  "unsetEnv w name = (LookupEnv w name = None \<or> LookupEnv w name = Some [])"

text \<open>
  If the store has an environment layer already (a binding, or \<^verbatim>\<open>AutomaticEnv\<close>), it was
  set up as \<^verbatim>\<open>WithEnv\<close> does with the prefix \<open>p\<close>.
\<close>

definition envLayerIs :: "Viper \<Rightarrow> string \<Rightarrow> bool" where
  "envLayerIs v p =
     ((automaticEnvApplied v \<or> env v \<noteq> []) \<longrightarrow>
        envPrefix v = p \<and> envKeyReplacer v = Some (CHR ''.'', CHR ''_''))"

text \<open>The environment layer \<^verbatim>\<open>WithEnv("CONFIG")\<close> gives a Viper that has no binding yet.\<close>

definition envLayerCONFIG :: "Viper \<Rightarrow> Viper" where
  "envLayerCONFIG v = v\<lparr>envPrefix := ''CONFIG'',
     envKeyReplacer := Some (CHR ''.'', CHR ''_''),
     automaticEnvApplied := True,
     env := [(''environment'', [''CONFIG_ENVIRONMENT'']), (''debug'', [''CONFIG_DEBUG'']),
             (''app.name'', [''CONFIG_APP_NAME'']), (''app.port'', [''CONFIG_APP_PORT''])]\<rparr>"







subsection \<open>Concrete stores and worlds of the examples\<close>

text \<open>The store \<^verbatim>\<open>New\<close> hands to the first option: \<open>newConfig\<close> after the tag defaults.\<close>

definition defaultedConfig :: Config where
  "defaultedConfig = newConfig\<lparr>configStruct :=
     \<lparr>Environment = ''development'', Debug = False, Settings = Some []\<rparr>\<rparr>"

text \<open>No variable set and no file; and a file that sets \<^verbatim>\<open>environment\<close> to the empty string.\<close>

definition emptyWorld :: world where
  "emptyWorld = \<lparr>LookupEnv = (\<lambda>name. None), LoadFile = (\<lambda>path t. Inl ''no such file'')\<rparr>"


text \<open>Every file exists and is empty.\<close>

definition worldEmptyFiles :: world where
  "worldEmptyFiles = \<lparr>LookupEnv = (\<lambda>name. None), LoadFile = (\<lambda>path t. Inr [])\<rparr>"

text \<open>
  \<^verbatim>\<open>CONFIG_ENVIRONMENT=testing\<close> in the environment, and a file \<^verbatim>\<open>config.yaml\<close> with
  \<^verbatim>\<open>environment: production\<close>.
\<close>

definition worldEnvFile :: world where
  "worldEnvFile = \<lparr>LookupEnv = map_of [(''CONFIG_ENVIRONMENT'', ''testing'')],
     LoadFile = (\<lambda>path t. if path = ''config.yaml'' then Inr [(''environment'', VStr ''production'')]
                           else Inl ''no such file'')\<rparr>"

definition storeEnvFile :: Config where
  "storeEnvFile = \<lparr>viper = (envLayerCONFIG viperNew)\<lparr>configFile := ''config.yaml'',
       configType := ''yaml'', config := [(''environment'', VStr ''production'')]\<rparr>,
     configStruct = \<lparr>Environment = ''testing'', Debug = False, Settings = Some []\<rparr>\<rparr>"

text \<open>The store after \<^verbatim>\<open>WithDefault\<close> with \<^verbatim>\<open>environment: staging\<close>.\<close>

definition storeStaging :: Config where
  "storeStaging = defaultedConfig\<lparr>viper := viperNew\<lparr>defaults := [(''environment'', VStr ''staging'')]\<rparr>\<rparr>"

text \<open>
  \<^verbatim>\<open>CONFIG_APP=x\<close> in the environment, \<^verbatim>\<open>CONFIG_APP_PORT\<close> unset; and the store after
  \<^verbatim>\<open>WithDefault\<close> with \<^verbatim>\<open>app.port: "8080"\<close>.
\<close>

definition worldShadow :: world where
  "worldShadow = \<lparr>LookupEnv = map_of [(''CONFIG_APP'', ''x'')],
     LoadFile = (\<lambda>path t. Inl ''no such file'')\<rparr>"

definition storePort :: Config where
  "storePort = defaultedConfig\<lparr>viper := viperNew\<lparr>defaults := [(''app'', VMap [(''port'', VStr ''8080'')])]\<rparr>\<rparr>"

text \<open>
  \<^verbatim>\<open>CONFIG_APP_NAME=env-app\<close> in the environment; the store after \<^verbatim>\<open>WithDefault\<close> with
  \<^verbatim>\<open>app.name: default-app\<close> and \<^verbatim>\<open>app.port: "8080"\<close>.
\<close>

definition worldAppName :: world where
  "worldAppName = \<lparr>LookupEnv = map_of [(''CONFIG_APP_NAME'', ''env-app'')],
     LoadFile = (\<lambda>path t. Inl ''no such file'')\<rparr>"

definition storeApp :: Config where
  "storeApp = defaultedConfig\<lparr>viper := viperNew\<lparr>defaults :=
     [(''app'', VMap [(''name'', VStr ''default-app''), (''port'', VStr ''8080'')])]\<rparr>\<rparr>"







text \<open>
  The store after \<^verbatim>\<open>WithDefault\<close> with \<^verbatim>\<open>environment: staging\<close> followed by the file
  option on \<^verbatim>\<open>config.yaml\<close> of \<open>worldEnvFile\<close>.
\<close>

definition storeStagingFile :: Config where
  "storeStagingFile = \<lparr>viper = viperNew\<lparr>configFile := ''config.yaml'', configType := ''yaml'',
       config := [(''environment'', VStr ''production'')],
       defaults := [(''environment'', VStr ''staging'')]\<rparr>,
     configStruct = \<lparr>Environment = ''production'', Debug = False, Settings = Some []\<rparr>\<rparr>"

section \<open>Properties\<close>

subsection \<open>Setting a field\<close>

lemma CanSet_setVal [simp]: "CanSet (setVal f x) = CanSet f"
  by (simp add: CanSet_def setVal_def)

lemma setVal_sel [simp]:
  "fname (setVal f x) = fname f"
  "tag_mapstructure (setVal f x) = tag_mapstructure f"
  "tag_default (setVal f x) = tag_default f"
  "fval (setVal f x) = x"
  by (simp_all add: setVal_def)

lemma setVal_setVal [simp]: "setVal (setVal f x) y = setVal f y"
  by (simp add: setVal_def)

subsection \<open>applyDefaults and validateRequiredFields on ConfigStruct\<close>

text \<open>
  On the three fields of \<open>ConfigStruct\<close> the loop of \<^verbatim>\<open>applyDefaults\<close> comes to this:
  \<^verbatim>\<open>Environment\<close> gets its default when empty; \<^verbatim>\<open>Debug\<close>, when false, is set to
  \<^verbatim>\<open>"false" == "true"\<close>, false again; \<^verbatim>\<open>Settings\<close> has the empty default tag and is
  skipped.
\<close>

lemma applyDefaults_eq:
  "applyDefaults c =
     (c\<lparr>configStruct := (configStruct c)\<lparr>Environment :=
         (if Environment (configStruct c) = [] then ''development''
          else Environment (configStruct c))\<rparr>\<rparr>, None)"
  by (simp add: applyDefaults_def reflectConfigStruct_def applyDefault_def CanSet_def
      upper_letters_def setVal_def Let_def)

lemma applyDefaults_newConfig: "applyDefaults newConfig = (defaultedConfig, None)"
  by (simp add: applyDefaults_eq defaultedConfig_def newConfig_def)

lemma validateRequiredFields_eq:
  "validateRequiredFields c =
     (if Environment (configStruct c) = [] then Some (RequiredFieldNotSet ''Environment'')
      else None)"
  by (simp add: validateRequiredFields_def reflectConfigStruct_def)

lemma New_eq:
  "New opts =
     (case applyOptions opts defaultedConfig of
        Inl err \<Rightarrow> (None, Some err)
      | Inr c \<Rightarrow> (Some c, None))"
  by (simp add: New_def applyDefaults_newConfig validateRequiredFields_eq defaultedConfig_def)

subsection \<open>The validation loop on any struct\<close>

lemma validateFields_None:
  "(validateFields fs = None) =
     (\<forall>f \<in> set fs. \<not> (Contains (tag_mapstructure f) '',required'' \<and> IsZero (fval f)))"
  by (induction fs) auto






text \<open>
  C4. With no options \<^verbatim>\<open>New\<close> succeeds, and the projection of the store has
  \<^verbatim>\<open>Environment\<close> "development", \<^verbatim>\<open>Debug\<close> false and \<^verbatim>\<open>Settings\<close> an empty map that
  is not nil.
\<close>

theorem New_no_options:
  "\<exists>c. New [] = (Some c, None)
      \<and> Environment (GetConfigStruct c) = ''development''
      \<and> Debug (GetConfigStruct c) = False
      \<and> Settings (GetConfigStruct c) = Some []"
  by (simp add: New_eq defaultedConfig_def GetConfigStruct_def)

theorem New_no_options_witness: "fst (New []) \<noteq> None \<and> snd (New []) = None"
  using New_no_options by auto

subsection \<open>The loop of applyDefaults on any struct\<close>

lemma applyDefault_nonzero:
  "\<not> IsZero (fval f) \<Longrightarrow>
     applyDefault f =
       (f, if tag_default f \<noteq> [] \<and> \<not> CanSet f then Some (CannotSetField (fname f)) else None)"
  by (simp add: applyDefault_def Let_def)

lemma applyDefault_idem: "applyDefault f = (f', r) \<Longrightarrow> applyDefault f' = (f', r)"
  by (cases "fval f") (auto simp: applyDefault_def Let_def split: if_splits)

lemma applyDefaultsFields_idem:
  "applyDefaultsFields fs = (fs', r) \<Longrightarrow> applyDefaultsFields fs' = (fs', r)"
proof (induction fs arbitrary: fs' r)
  case Nil
  then show ?case by simp
next
  case (Cons f fs)
  obtain f1 r1 where f1: "applyDefault f = (f1, r1)" by (cases "applyDefault f")
  note idem = applyDefault_idem[OF f1]
  show ?case
  proof (cases r1)
    case None
    obtain fs1 r2 where fs1: "applyDefaultsFields fs = (fs1, r2)"
      by (cases "applyDefaultsFields fs")
    from Cons.prems f1 None fs1 have "fs' = f1 # fs1" "r = r2" by auto
    with idem None Cons.IH[OF fs1] show ?thesis by simp
  next
    case (Some e)
    with Cons.prems f1 have "fs' = f1 # fs" "r = Some e" by auto
    with idem Some show ?thesis by simp
  qed
qed

lemma applyDefaultsFields_nonzero:
  "applyDefaultsFields fs = (fs', r) \<Longrightarrow>
     length fs' = length fs
     \<and> (\<forall>i < length fs. \<not> IsZero (fval (fs ! i)) \<longrightarrow> fs' ! i = fs ! i)"
proof (induction fs arbitrary: fs' r)
  case Nil
  then show ?case by simp
next
  case (Cons f fs)
  obtain f1 r1 where f1: "applyDefault f = (f1, r1)" by (cases "applyDefault f")
  have keep: "\<not> IsZero (fval f) \<Longrightarrow> f1 = f"
    using f1 by (simp add: applyDefault_nonzero)
  show ?case
  proof (cases r1)
    case None
    obtain fs1 r2 where fs1: "applyDefaultsFields fs = (fs1, r2)"
      by (cases "applyDefaultsFields fs")
    from Cons.prems f1 None fs1 have eq: "fs' = f1 # fs1" by auto
    from Cons.IH[OF fs1] keep eq show ?thesis
      by (auto simp: nth_Cons split: nat.splits)
  next
    case (Some e)
    with Cons.prems f1 have "fs' = f1 # fs" by auto
    with keep show ?thesis by (auto simp: nth_Cons split: nat.splits)
  qed
qed

text \<open>
  C10. \<^verbatim>\<open>applyDefaults\<close> leaves every field of the projection that holds a non-zero value
  as it is, and applying it to its own result changes nothing: the same store and the same
  (absent) error come back. The loop does so on the fields of any struct, whatever their
  tags: a field that is not zero is not touched, and a second run over the result returns
  the result and the same error.
\<close>

theorem applyDefaults_idempotent:
  "applyDefaults c = (c', r) \<Longrightarrow>
     applyDefaults c' = (c', r)
     \<and> (Environment (configStruct c) \<noteq> [] \<longrightarrow>
          Environment (configStruct c') = Environment (configStruct c))
     \<and> (Debug (configStruct c) \<longrightarrow> Debug (configStruct c'))
     \<and> (Settings (configStruct c) \<noteq> None \<longrightarrow>
          Settings (configStruct c') = Settings (configStruct c))
     \<and> (\<forall>fs fs' e. applyDefaultsFields fs = (fs', e) \<longrightarrow>
          applyDefaultsFields fs' = (fs', e)
          \<and> length fs' = length fs
          \<and> (\<forall>i < length fs. \<not> IsZero (fval (fs ! i)) \<longrightarrow> fs' ! i = fs ! i))"
proof -
  assume a: "applyDefaults c = (c', r)"
  have loop: "applyDefaultsFields fs' = (fs', e) \<and> length fs' = length fs
      \<and> (\<forall>i < length fs. \<not> IsZero (fval (fs ! i)) \<longrightarrow> fs' ! i = fs ! i)"
    if "applyDefaultsFields fs = (fs', e)" for fs fs' e
    using applyDefaultsFields_idem[OF that] applyDefaultsFields_nonzero[OF that] by simp
  from a have c': "c' = c\<lparr>configStruct := (configStruct c)\<lparr>Environment :=
         (if Environment (configStruct c) = [] then ''development''
          else Environment (configStruct c))\<rparr>\<rparr>" and r: "r = None"
    by (simp_all add: applyDefaults_eq)
  have idem: "applyDefaults c' = (c', r)"
    unfolding c' r by (simp add: applyDefaults_eq)
  have keep: "Environment (configStruct c) \<noteq> [] \<longrightarrow>
          Environment (configStruct c') = Environment (configStruct c)"
    "Debug (configStruct c) \<longrightarrow> Debug (configStruct c')"
    "Settings (configStruct c) \<noteq> None \<longrightarrow>
          Settings (configStruct c') = Settings (configStruct c)"
    unfolding c' by simp_all
  from idem keep loop show ?thesis by blast
qed

theorem applyDefaults_idempotent_witness:
  "applyDefaults newConfig = (defaultedConfig, None)
   \<and> applyDefaults defaultedConfig = (defaultedConfig, None)
   \<and> Settings (configStruct defaultedConfig) = Settings (configStruct newConfig)"
proof -
  have s: "Settings (configStruct defaultedConfig) = Settings (configStruct newConfig)"
    by (simp add: defaultedConfig_def newConfig_def)
  from applyDefaults_idempotent[OF applyDefaults_newConfig] applyDefaults_newConfig s
  show ?thesis by blast
qed

subsection \<open>New and its options\<close>




subsection \<open>The file option\<close>

lemma unmarshalConfigStruct_viper:
  "unmarshalConfigStruct w c = Inr c' \<Longrightarrow> viper c' = viper c"
  by (auto simp: unmarshalConfigStruct_def split: prod.splits target.splits option.splits)

lemma validate_not_unsupported: "validateRequiredFields c \<noteq> Some (UnsupportedFileFormat p)"
  by (simp add: validateRequiredFields_eq)

text \<open>
  C5, as the code has it. The extension is compared in lower case: a path whose extension,
  lower-cased, is none of \<^verbatim>\<open>.yaml\<close>, \<^verbatim>\<open>.yml\<close>, \<^verbatim>\<open>.json\<close> is refused with the
  unsupported-format error, in every world (whether the file exists or not, the file is
  never read); every other path gets past the check, so that error is not what it returns.
\<close>

theorem WithFilepath_extension:
  "(ToLower (Ext path) \<notin> {''.yaml'', ''.yml'', ''.json''} \<longrightarrow>
      WithFilepath w path c = Inl (UnsupportedFileFormat path))
   \<and> (ToLower (Ext path) \<in> {''.yaml'', ''.yml'', ''.json''} \<longrightarrow>
      (\<forall>p. WithFilepath w path c \<noteq> Inl (UnsupportedFileFormat p)))"
  by (auto simp: WithFilepath_def Let_def validate_not_unsupported
      split: sum.splits option.splits)

theorem WithFilepath_extension_witness:
  "ToLower (Ext ''config.txt'') \<notin> {''.yaml'', ''.yml'', ''.json''}
   \<and> WithFilepath worldEmptyFiles ''config.txt'' defaultedConfig
        = Inl (UnsupportedFileFormat ''config.txt'')
   \<and> WithFilepath emptyWorld ''config.txt'' defaultedConfig
        = Inl (UnsupportedFileFormat ''config.txt'')
   \<and> ToLower (Ext ''config.yml'') \<in> {''.yaml'', ''.yml'', ''.json''}
   \<and> WithFilepath emptyWorld ''config.yml'' defaultedConfig
        \<noteq> Inl (UnsupportedFileFormat ''config.yml'')"
proof -
  have a: "ToLower (Ext ''config.txt'') \<notin> {''.yaml'', ''.yml'', ''.json''}" by code_simp
  have b: "ToLower (Ext ''config.yml'') \<in> {''.yaml'', ''.yml'', ''.json''}" by code_simp
  from a b WithFilepath_extension[of "''config.txt''" worldEmptyFiles defaultedConfig]
    WithFilepath_extension[of "''config.txt''" emptyWorld defaultedConfig]
    WithFilepath_extension[of "''config.yml''" emptyWorld defaultedConfig]
  show ?thesis by blast
qed

text \<open>
  C5 as stated fails: the extension of \<^verbatim>\<open>config.YAML\<close> is \<^verbatim>\<open>.YAML\<close>, none of the
  three, and where the file exists the option succeeds.
\<close>

theorem WithFilepath_upper_case_extension:
  "Ext ''config.YAML'' = ''.YAML''
   \<and> WithFilepath worldEmptyFiles ''config.YAML'' defaultedConfig
       = Inr (defaultedConfig\<lparr>viper :=
                viperNew\<lparr>configFile := ''config.YAML'', configType := ''yaml''\<rparr>\<rparr>)"
  by code_simp

subsection \<open>GetBool\<close>



subsection \<open>The default-values option\<close>

text \<open>
  C2 at the default-values option. \<^verbatim>\<open>WithDefault\<close> writes the tree and returns: it does
  not decode the tree into the projection and does not validate. Whatever the defaults
  are, the store \<^verbatim>\<open>New\<close> returns has the projection of the struct tags.
\<close>

theorem WithDefault_leaves_projection:
  "New [WithDefault dflts] = (Some (defaultedConfig\<lparr>viper := setDefaults viperNew dflts\<rparr>), None)
   \<and> GetConfigStruct (defaultedConfig\<lparr>viper := setDefaults viperNew dflts\<rparr>)
       = \<lparr>Environment = ''development'', Debug = False, Settings = Some []\<rparr>"
  by (simp add: New_eq WithDefault_def GetConfigStruct_def defaultedConfig_def newConfig_def)

text \<open>
  With \<^verbatim>\<open>environment: staging\<close> as the default, the tree answers "staging" and the
  projection still says "development".
\<close>

theorem WithDefault_leaves_projection_witness:
  "New [WithDefault [(''environment'', VStr ''staging'')]] = (Some storeStaging, None)
   \<and> Get emptyWorld storeStaging ''environment'' = VStr ''staging''
   \<and> Environment (GetConfigStruct storeStaging) = ''development''"
proof -
  have s: "defaultedConfig\<lparr>viper := setDefaults viperNew [(''environment'', VStr ''staging'')]\<rparr>
             = storeStaging"
    by code_simp
  have g: "Get emptyWorld storeStaging ''environment'' = VStr ''staging''"
    by code_simp
  from WithDefault_leaves_projection[of "[(''environment'', VStr ''staging'')]"] g
  show ?thesis unfolding s by simp
qed

subsection \<open>Environment and file\<close>

text \<open>
  The order of the layers in general: a variable that \<^verbatim>\<open>AutomaticEnv\<close> finds set is
  the value of the key whatever the file and the defaults hold; without an environment
  layer, a value in the file comes before the defaults.
\<close>

lemma environment_first:
  "automaticEnvApplied v \<Longrightarrow> getEnv w v (mergeWithEnvPrefix v (ToLower key)) = Some x \<Longrightarrow>
     vGet w v key = VStr x"
  by (simp add: vGet_def findKey_def Let_def)

lemma file_before_defaults:
  "\<not> automaticEnvApplied v \<Longrightarrow> env v = [] \<Longrightarrow>
     searchIndexableWithPathPrefixes (config v) (Split (ToLower key)) = x \<Longrightarrow> x \<noteq> VNil \<Longrightarrow>
     vGet w v key = x"
  by (simp add: vGet_def findKey_def Let_def)

text \<open>
  C1 at the environment and the file. Viper looks a key up in the environment before the
  file, whatever the order of the options: with \<^verbatim>\<open>CONFIG_ENVIRONMENT=testing\<close> and a file
  that says \<^verbatim>\<open>environment: production\<close>, both orders of the two options build the same
  store; the file layer holds "production", and the accessors and the projection say
  "testing".
\<close>

theorem environment_overrides_file:
  "New [WithEnv worldEnvFile ''CONFIG'', WithFilepath worldEnvFile ''config.yaml'']
     = (Some storeEnvFile, None)
   \<and> New [WithFilepath worldEnvFile ''config.yaml'', WithEnv worldEnvFile ''CONFIG'']
     = (Some storeEnvFile, None)
   \<and> config (viper storeEnvFile) = [(''environment'', VStr ''production'')]
   \<and> Get worldEnvFile storeEnvFile ''environment'' = VStr ''testing''
   \<and> GetStringWithDefault worldEnvFile storeEnvFile ''environment'' ''x'' = ''testing''
   \<and> Environment (GetConfigStruct storeEnvFile) = ''testing''"
proof (intro conjI)
  show "New [WithEnv worldEnvFile ''CONFIG'', WithFilepath worldEnvFile ''config.yaml'']
     = (Some storeEnvFile, None)"
    by code_simp
  show "New [WithFilepath worldEnvFile ''config.yaml'', WithEnv worldEnvFile ''CONFIG'']
     = (Some storeEnvFile, None)"
    by code_simp
  show "config (viper storeEnvFile) = [(''environment'', VStr ''production'')]"
    by code_simp
  show "Get worldEnvFile storeEnvFile ''environment'' = VStr ''testing''"
    by code_simp
  show "GetStringWithDefault worldEnvFile storeEnvFile ''environment'' ''x'' = ''testing''"
    by code_simp
  show "Environment (GetConfigStruct storeEnvFile) = ''testing''"
    by code_simp
qed

theorem environment_overrides_file_witness:
  "GetStringWithDefault worldEnvFile storeEnvFile ''environment'' ''x'' \<noteq> ''production''
   \<and> fst (New [WithEnv worldEnvFile ''CONFIG'', WithFilepath worldEnvFile ''config.yaml''])
       = Some storeEnvFile"
  using environment_overrides_file by simp

text \<open>
  The part of C1 on defaults and file holds at its example: a default of "staging"
  followed by the file gives "production".
\<close>

lemma file_overrides_default:
  "New [WithDefault [(''environment'', VStr ''staging'')], WithFilepath worldEnvFile ''config.yaml'']
     = (Some storeStagingFile, None)
   \<and> GetStringWithDefault worldEnvFile storeStagingFile ''environment'' ''x'' = ''production''
   \<and> Environment (GetConfigStruct storeStagingFile) = ''production''"
proof (intro conjI)
  show "New [WithDefault [(''environment'', VStr ''staging'')],
             WithFilepath worldEnvFile ''config.yaml''] = (Some storeStagingFile, None)"
    by code_simp
  show "GetStringWithDefault worldEnvFile storeStagingFile ''environment'' ''x'' = ''production''"
    by code_simp
  show "Environment (GetConfigStruct storeStagingFile) = ''production''"
    by code_simp
qed

subsection \<open>The environment option\<close>

lemma map_of_assign: "map_of (assign m k x) k' = (if k' = k then Some x else map_of m k')"
  by (induction m k x rule: assign.induct) auto

lemma bindKeys_frame:
  "bindKeys v p ks = Inr v' \<Longrightarrow>
     envPrefix v' = envPrefix v \<and> envKeyReplacer v' = envKeyReplacer v
     \<and> automaticEnvApplied v' = automaticEnvApplied v
     \<and> config v' = config v \<and> defaults v' = defaults v
     \<and> configFile v' = configFile v \<and> configType v' = configType v"
  by (induction v p ks rule: bindKeys.induct) (auto simp: BindEnv_def Let_def)

lemma WithEnv_Inr:
  "WithEnv w prefix c = Inr c' \<Longrightarrow>
     bindKeys (AutomaticEnv (SetEnvKeyReplacer (SetEnvPrefix (viper c) (ToUpper prefix))
                (CHR ''.'') (CHR ''_''))) prefix boundKeys = Inr (viper c')"
  by (auto simp: WithEnv_def split: sum.splits option.splits dest!: unmarshalConfigStruct_viper)

lemma ToUpper_CONFIG: "ToUpper ''CONFIG'' = ''CONFIG''"
  by code_simp

lemma WithEnv_CONFIG_frame:
  assumes "WithEnv w ''CONFIG'' c = Inr c'"
  shows "envPrefix (viper c') = ''CONFIG''"
    "envKeyReplacer (viper c') = Some (CHR ''.'', CHR ''_'')"
    "automaticEnvApplied (viper c')"
    "config (viper c') = config (viper c)"
    "defaults (viper c') = defaults (viper c)"
  using bindKeys_frame[OF WithEnv_Inr[OF assms]]
  by (simp_all add: ToUpper_CONFIG AutomaticEnv_def SetEnvKeyReplacer_def SetEnvPrefix_def)

lemma WithEnv_CONFIG_env:
  assumes "WithEnv w ''CONFIG'' c = Inr c'"
  shows "boundNames (viper c') ''environment''
           = boundNames (viper c) ''environment'' @ [''CONFIG_ENVIRONMENT'']"
    "boundNames (viper c') ''debug'' = boundNames (viper c) ''debug'' @ [''CONFIG_DEBUG'']"
    "boundNames (viper c') ''app.name'' = boundNames (viper c) ''app.name'' @ [''CONFIG_APP_NAME'']"
    "boundNames (viper c') ''app.port'' = boundNames (viper c) ''app.port'' @ [''CONFIG_APP_PORT'']"
proof -
  have up: "ToUpper ''environment'' = ''ENVIRONMENT''" "ToUpper ''debug'' = ''DEBUG''"
    "ToUpper ''app_name'' = ''APP_NAME''" "ToUpper ''app_port'' = ''APP_PORT''"
    "ToLower ''environment'' = ''environment''" "ToLower ''debug'' = ''debug''"
    "ToLower ''app.name'' = ''app.name''" "ToLower ''app.port'' = ''app.port''"
    by code_simp+
  from WithEnv_Inr[OF assms(1), symmetric]
  have v': "viper c' = (viper c)\<lparr>envPrefix := ''CONFIG'',
      envKeyReplacer := Some (CHR ''.'', CHR ''_''),
      automaticEnvApplied := True,
      env := assign (assign (assign (assign (env (viper c))
         ''environment'' (boundNames (viper c) ''environment'' @ [''CONFIG_ENVIRONMENT'']))
         ''debug'' (boundNames (viper c) ''debug'' @ [''CONFIG_DEBUG'']))
         ''app.name'' (boundNames (viper c) ''app.name'' @ [''CONFIG_APP_NAME'']))
         ''app.port'' (boundNames (viper c) ''app.port'' @ [''CONFIG_APP_PORT''])\<rparr>"
    by (simp add: boundKeys_def BindEnv_def Let_def ReplaceAll_def up ToUpper_CONFIG
        AutomaticEnv_def SetEnvKeyReplacer_def SetEnvPrefix_def map_of_assign boundNames_def)
  show "boundNames (viper c') ''environment''
          = boundNames (viper c) ''environment'' @ [''CONFIG_ENVIRONMENT'']"
    "boundNames (viper c') ''debug'' = boundNames (viper c) ''debug'' @ [''CONFIG_DEBUG'']"
    "boundNames (viper c') ''app.name'' = boundNames (viper c) ''app.name'' @ [''CONFIG_APP_NAME'']"
    "boundNames (viper c') ''app.port'' = boundNames (viper c) ''app.port'' @ [''CONFIG_APP_PORT'']"
    unfolding v' by (simp_all add: boundNames_def map_of_assign)
qed

lemma getEnv_replacer:
  "envKeyReplacer v = envKeyReplacer v' \<Longrightarrow> getEnv w v name = getEnv w v' name"
  by (simp add: getEnv_def)

lemma firstSetEnv_replacer:
  "envKeyReplacer v = envKeyReplacer v' \<Longrightarrow> firstSetEnv w v names = firstSetEnv w v' names"
  by (induction names) (auto simp: getEnv_replacer[of v v'] split: option.splits)

lemma firstSetEnv_snoc:
  "getEnv w v name = None \<Longrightarrow> firstSetEnv w v (names @ [name]) = firstSetEnv w v names"
  by (induction names) (auto split: option.splits)

lemma getEnv_unset:
  "envKeyReplacer v = Some (CHR ''.'', CHR ''_'') \<Longrightarrow>
     unsetEnv w (ReplaceAll name (CHR ''.'') (CHR ''_'')) \<Longrightarrow> getEnv w v name = None"
  by (auto simp: getEnv_def unsetEnv_def)

text \<open>\<open>findKey\<close> layer by layer.\<close>

lemma findKey_layers:
  "findKey w v k =
     (case (if automaticEnvApplied v then getEnv w v (mergeWithEnvPrefix v k) else None) of
        Some x \<Rightarrow> VStr x
      | None \<Rightarrow>
          if automaticEnvApplied v \<and> length (Split k) > 1
             \<and> isPathShadowedInAutoEnv w v (Split k) \<noteq> [] then VNil
          else (case firstSetEnv w v (boundNames v k) of
                  Some x \<Rightarrow> VStr x
                | None \<Rightarrow> lowerLayers v (Split k)))"
  unfolding findKey_def boundNames_def lowerLayers_def Let_def
  by (auto split: option.splits)

lemma boundNames_empty: "env v = [] \<Longrightarrow> boundNames v k = []"
  by (simp add: boundNames_def)

lemma merge_CONFIG:
  "envPrefix v = ''CONFIG'' \<Longrightarrow> mergeWithEnvPrefix v k = ToUpper (''CONFIG_'' @ k)"
  by (simp add: mergeWithEnvPrefix_def)

lemma shadowed_one:
  "isPathShadowedInAutoEnv w v [p, q] =
     (case getEnv w v (mergeWithEnvPrefix v p) of Some x \<Rightarrow> p | None \<Rightarrow> [])"
  by (simp add: isPathShadowedInAutoEnv_def split: option.splits)

text \<open>
  A key bound by \<^verbatim>\<open>WithEnv("CONFIG")\<close> whose variable is unset, and which is either not
  nested or lies under \<^verbatim>\<open>app\<close> with \<^verbatim>\<open>CONFIG_APP\<close> unset, reads after the option as
  before.
\<close>

lemma unchanged_key:
  assumes a: "WithEnv w ''CONFIG'' c = Inr c'" and l: "envLayerIs (viper c) ''CONFIG''"
    and k: "ToLower k = k"
    and b: "boundNames (viper c') k = boundNames (viper c) k @ [name]"
    and m: "ReplaceAll (ToUpper (''CONFIG_'' @ k)) (CHR ''.'') (CHR ''_'') = name"
           "ReplaceAll name (CHR ''.'') (CHR ''_'') = name"
    and u: "unsetEnv w name"
    and s: "Split k = [k] \<or> (Split k = [''app'', q] \<and> unsetEnv w ''CONFIG_APP'')"
  shows "Get w c' k = Get w c k"
proof -
  note fr = WithEnv_CONFIG_frame[OF a]
  have app: "ReplaceAll (ToUpper (''CONFIG_'' @ ''app'')) (CHR ''.'') (CHR ''_'') = ''CONFIG_APP''"
    by code_simp
  have low: "lowerLayers (viper c') (Split k) = lowerLayers (viper c) (Split k)"
    by (simp add: lowerLayers_def fr Let_def)
  have g1: "getEnv w (viper c') (mergeWithEnvPrefix (viper c') k) = None"
    unfolding merge_CONFIG[OF fr(1)] using getEnv_unset[OF fr(2)] m(1) u by simp
  have g2: "getEnv w (viper c') name = None"
    using getEnv_unset[OF fr(2)] m(2) u by simp
  have sh: "\<not> (length (Split k) > 1 \<and> isPathShadowedInAutoEnv w (viper c') (Split k) \<noteq> [])"
  proof (cases "Split k = [k]")
    case True
    then show ?thesis by simp
  next
    case False
    with s have sp: "Split k = [''app'', q]" and ua: "unsetEnv w ''CONFIG_APP''" by auto
    have "getEnv w (viper c') (mergeWithEnvPrefix (viper c') ''app'') = None"
      unfolding merge_CONFIG[OF fr(1)] using getEnv_unset[OF fr(2)] app ua by simp
    then show ?thesis by (simp add: sp shadowed_one)
  qed
  have f': "firstSetEnv w (viper c') (boundNames (viper c') k)
              = firstSetEnv w (viper c') (boundNames (viper c) k)"
    unfolding b using firstSetEnv_snoc[OF g2] by simp
  have new: "findKey w (viper c') k =
      (case firstSetEnv w (viper c') (boundNames (viper c) k) of
         Some x \<Rightarrow> VStr x | None \<Rightarrow> lowerLayers (viper c) (Split k))"
    using g1 sh f' low by (auto simp: findKey_layers split: option.splits)
  have old: "findKey w (viper c) k =
      (case firstSetEnv w (viper c') (boundNames (viper c) k) of
         Some x \<Rightarrow> VStr x | None \<Rightarrow> lowerLayers (viper c) (Split k))"
  proof (cases "automaticEnvApplied (viper c) \<or> env (viper c) \<noteq> []")
    case True
    with l have p: "envPrefix (viper c) = ''CONFIG''"
      "envKeyReplacer (viper c) = Some (CHR ''.'', CHR ''_'')"
      by (auto simp: envLayerIs_def)
    have r: "envKeyReplacer (viper c) = envKeyReplacer (viper c')" using p fr by simp
    have mm: "mergeWithEnvPrefix (viper c) = mergeWithEnvPrefix (viper c')"
      by (rule ext) (simp add: mergeWithEnvPrefix_def p fr)
    have o1: "getEnv w (viper c) (mergeWithEnvPrefix (viper c) k) = None"
      using g1 getEnv_replacer[OF r] mm by simp
    have ss: "isPathShadowedInAutoEnv w (viper c) (Split k)
                = isPathShadowedInAutoEnv w (viper c') (Split k)"
    proof (cases "Split k = [k]")
      case True
      then show ?thesis by (simp add: isPathShadowedInAutoEnv_def)
    next
      case False
      with s have sp: "Split k = [''app'', q]" by auto
      show ?thesis by (simp add: sp shadowed_one mm getEnv_replacer[OF r])
    qed
    show ?thesis
      using o1 sh ss firstSetEnv_replacer[OF r, of w]
      by (auto simp: findKey_layers split: option.splits)
  next
    case False
    then have "boundNames (viper c) k = []" by (simp add: boundNames_empty)
    with False show ?thesis by (auto simp: findKey_layers split: option.splits)
  qed
  show ?thesis by (simp add: Get_def vGet_def k new old)
qed

text \<open>
  C6, as the code has it. After the environment option with prefix \<^verbatim>\<open>CONFIG\<close> has
  succeeded: if \<^verbatim>\<open>CONFIG_APP_NAME\<close> is "env-app", then
  \<^verbatim>\<open>GetStringWithDefault("app.name", "default")\<close> is "env-app". And, on a store whose
  environment layer, if it has one, was set up with the same prefix: a bound key whose
  variable is unset (or empty) reads as it did before the option, provided, for
  \<^verbatim>\<open>app.name\<close> and \<^verbatim>\<open>app.port\<close>, that \<^verbatim>\<open>CONFIG_APP\<close>, the variable of their common
  prefix, is unset as well.
\<close>

theorem WithEnv_CONFIG:
  "WithEnv w ''CONFIG'' c = Inr c' \<Longrightarrow>
     (LookupEnv w ''CONFIG_APP_NAME'' = Some ''env-app'' \<longrightarrow>
        GetStringWithDefault w c' ''app.name'' ''default'' = ''env-app'')
     \<and> (envLayerIs (viper c) ''CONFIG'' \<longrightarrow>
          (unsetEnv w ''CONFIG_ENVIRONMENT'' \<longrightarrow>
              Get w c' ''environment'' = Get w c ''environment'')
        \<and> (unsetEnv w ''CONFIG_DEBUG'' \<longrightarrow> Get w c' ''debug'' = Get w c ''debug'')
        \<and> (unsetEnv w ''CONFIG_APP_NAME'' \<and> unsetEnv w ''CONFIG_APP'' \<longrightarrow>
              Get w c' ''app.name'' = Get w c ''app.name'')
        \<and> (unsetEnv w ''CONFIG_APP_PORT'' \<and> unsetEnv w ''CONFIG_APP'' \<longrightarrow>
              Get w c' ''app.port'' = Get w c ''app.port''))"
proof -
  assume a: "WithEnv w ''CONFIG'' c = Inr c'"
  note fr = WithEnv_CONFIG_frame[OF a]
  note bn = WithEnv_CONFIG_env[OF a]
  have one: "GetStringWithDefault w c' ''app.name'' ''default'' = ''env-app''"
    if "LookupEnv w ''CONFIG_APP_NAME'' = Some ''env-app''"
  proof -
    have "ToLower ''app.name'' = ''app.name''"
      "ReplaceAll (ToUpper (''CONFIG_'' @ ''app.name'')) (CHR ''.'') (CHR ''_'') = ''CONFIG_APP_NAME''"
      by code_simp+
    with that have "findKey w (viper c') (ToLower ''app.name'') = VStr ''env-app''"
      by (simp add: findKey_layers fr merge_CONFIG[OF fr(1)] getEnv_def)
    then show ?thesis
      by (simp add: GetStringWithDefault_def vIsSet_def vGetString_def vGet_def)
  qed
  have two: "Get w c' ''environment'' = Get w c ''environment''"
    if "envLayerIs (viper c) ''CONFIG''" "unsetEnv w ''CONFIG_ENVIRONMENT''"
  proof (rule unchanged_key[OF a that(1) _ bn(1) _ _ that(2)])
    show "Split ''environment'' = [''environment''] \<or>
      Split ''environment'' = [''app'', []] \<and> unsetEnv w ''CONFIG_APP''"
      by (rule disjI1) code_simp
  qed code_simp+
  have three: "Get w c' ''debug'' = Get w c ''debug''"
    if "envLayerIs (viper c) ''CONFIG''" "unsetEnv w ''CONFIG_DEBUG''"
  proof (rule unchanged_key[OF a that(1) _ bn(2) _ _ that(2)])
    show "Split ''debug'' = [''debug''] \<or>
      Split ''debug'' = [''app'', []] \<and> unsetEnv w ''CONFIG_APP''"
      by (rule disjI1) code_simp
  qed code_simp+
  have four: "Get w c' ''app.name'' = Get w c ''app.name''"
    if "envLayerIs (viper c) ''CONFIG''" "unsetEnv w ''CONFIG_APP_NAME''"
       "unsetEnv w ''CONFIG_APP''"
  proof (rule unchanged_key[OF a that(1) _ bn(3) _ _ that(2)])
    have "Split ''app.name'' = [''app'', ''name'']" by code_simp
    with that(3) show "Split ''app.name'' = [''app.name''] \<or>
      Split ''app.name'' = [''app'', ''name''] \<and> unsetEnv w ''CONFIG_APP''"
      by blast
  qed code_simp+
  have five: "Get w c' ''app.port'' = Get w c ''app.port''"
    if "envLayerIs (viper c) ''CONFIG''" "unsetEnv w ''CONFIG_APP_PORT''"
       "unsetEnv w ''CONFIG_APP''"
  proof (rule unchanged_key[OF a that(1) _ bn(4) _ _ that(2)])
    have "Split ''app.port'' = [''app'', ''port'']" by code_simp
    with that(3) show "Split ''app.port'' = [''app.port''] \<or>
      Split ''app.port'' = [''app'', ''port''] \<and> unsetEnv w ''CONFIG_APP''"
      by blast
  qed code_simp+
  from one two three four five show ?thesis by blast
qed

text \<open>
  The theorem on the store with the defaults \<^verbatim>\<open>app.name: default-app\<close> and
  \<^verbatim>\<open>app.port: "8080"\<close>, with \<^verbatim>\<open>CONFIG_APP_NAME=env-app\<close> alone in the environment: the
  name comes from the environment, the port stays the default.
\<close>

theorem WithEnv_CONFIG_witness:
  "WithEnv worldAppName ''CONFIG'' storeApp
     = Inr (storeApp\<lparr>viper := envLayerCONFIG (viper storeApp)\<rparr>)
   \<and> LookupEnv worldAppName ''CONFIG_APP_NAME'' = Some ''env-app''
   \<and> envLayerIs (viper storeApp) ''CONFIG''
   \<and> unsetEnv worldAppName ''CONFIG_APP_PORT''
   \<and> unsetEnv worldAppName ''CONFIG_APP''
   \<and> GetStringWithDefault worldAppName (storeApp\<lparr>viper := envLayerCONFIG (viper storeApp)\<rparr>)
        ''app.name'' ''default'' = ''env-app''
   \<and> Get worldAppName (storeApp\<lparr>viper := envLayerCONFIG (viper storeApp)\<rparr>) ''app.port''
        = VStr ''8080''"
proof -
  have a: "WithEnv worldAppName ''CONFIG'' storeApp
     = Inr (storeApp\<lparr>viper := envLayerCONFIG (viper storeApp)\<rparr>)"
    by code_simp
  have h: "LookupEnv worldAppName ''CONFIG_APP_NAME'' = Some ''env-app''"
    "envLayerIs (viper storeApp) ''CONFIG''"
    "unsetEnv worldAppName ''CONFIG_APP_PORT''"
    "unsetEnv worldAppName ''CONFIG_APP''"
    by code_simp+
  have g: "Get worldAppName storeApp ''app.port'' = VStr ''8080''"
    by code_simp
  from WithEnv_CONFIG[OF a] h g show ?thesis using a by simp
qed

text \<open>
  C6 as stated fails: with \<^verbatim>\<open>CONFIG_APP\<close> set and \<^verbatim>\<open>CONFIG_APP_PORT\<close> unset, the
  default of \<^verbatim>\<open>app.port\<close> is readable before the environment option and hidden after it
  (\<^verbatim>\<open>AutomaticEnv\<close> takes \<^verbatim>\<open>CONFIG_APP\<close> for the value of the whole section).
\<close>

theorem WithEnv_hides_default:
  "New [WithDefault [(''app.port'', VStr ''8080'')]] = (Some storePort, None)
   \<and> Get worldShadow storePort ''app.port'' = VStr ''8080''
   \<and> LookupEnv worldShadow ''CONFIG_APP_PORT'' = None
   \<and> WithEnv worldShadow ''CONFIG'' storePort
       = Inr (storePort\<lparr>viper := envLayerCONFIG (viper storePort)\<rparr>)
   \<and> Get worldShadow (storePort\<lparr>viper := envLayerCONFIG (viper storePort)\<rparr>) ''app.port'' = VNil"
proof (intro conjI)
  show "New [WithDefault [(''app.port'', VStr ''8080'')]] = (Some storePort, None)"
    by code_simp
  show "Get worldShadow storePort ''app.port'' = VStr ''8080''"
    by code_simp
  show "LookupEnv worldShadow ''CONFIG_APP_PORT'' = None"
    by code_simp
  show "WithEnv worldShadow ''CONFIG'' storePort
       = Inr (storePort\<lparr>viper := envLayerCONFIG (viper storePort)\<rparr>)"
    by code_simp
  show "Get worldShadow (storePort\<lparr>viper := envLayerCONFIG (viper storePort)\<rparr>) ''app.port'' = VNil"
    by code_simp
qed

subsection \<open>Unmarshal\<close>

















end
